theory Spec2Isabelle
  imports Main "HOL-Library.Word" "HOL-Library.Multiset"
begin

section \<open>CarPal backend: a shallow embedding of \<^verbatim>\<open>backend/app.js\<close>\<close>

text \<open>
  The backend is an Express application over a MySQL database, an upload directory and
  four libraries (jsonwebtoken, bcrypt, multer, the Gemini SDK). The embedding keeps the
  handlers of \<^verbatim>\<open>app.js\<close> as functions from a request and a server state to a response
  and a new state. What the handlers obtain from outside the repository during one request
  (library calls, clocks, failures of the database or of the file system) is read from an
  environment record, so that every theorem holds for whatever those calls return.
  The routes \<^verbatim>\<open>GET /featured-car\<close> and \<^verbatim>\<open>/cars\<close> (static files) read the state only and are
  left out.
\<close>

subsection \<open>JavaScript strings\<close>

text \<open>A JavaScript string is a sequence of UTF-16 code units.\<close>

type_synonym code_unit = "16 word"
type_synonym jsstring = "code_unit list"
type_synonym bytes = "8 word list"

definition js :: "string \<Rightarrow> jsstring" where
  "js s = map of_char s"

text \<open>
  The characters matched by \<^verbatim>\<open>\s\<close> in a regular expression and removed by
  \<^verbatim>\<open>String.prototype.trim\<close>: ECMAScript WhiteSpace and LineTerminator.
\<close>

definition is_ws :: "code_unit \<Rightarrow> bool" where
  "is_ws c \<longleftrightarrow>
     c = 0x9 \<or> c = 0xA \<or> c = 0xB \<or> c = 0xC \<or> c = 0xD \<or> c = 0x20 \<or> c = 0xA0 \<or>
     c = 0x1680 \<or> (0x2000 \<le> c \<and> c \<le> 0x200A) \<or> c = 0x2028 \<or> c = 0x2029 \<or>
     c = 0x202F \<or> c = 0x205F \<or> c = 0x3000 \<or> c = 0xFEFF"

definition trim :: "jsstring \<Rightarrow> jsstring" where
  "trim t = rev (dropWhile is_ws (rev (dropWhile is_ws t)))"

text \<open>\<^verbatim>\<open>s.split(sep)\<close> for a one-character separator; the empty string gives \<^verbatim>\<open>[""]\<close>.\<close>

fun split :: "'a \<Rightarrow> 'a list \<Rightarrow> 'a list list" where
  "split sep [] = [] # []"
| "split sep (c # cs) =
     (if c = sep then [] # split sep cs
      else (case split sep cs of [] \<Rightarrow> [c] # [] | p # ps \<Rightarrow> (c # p) # ps))"

text \<open>\<^verbatim>\<open>String(n)\<close> for a non-negative integer below \<open>10^21\<close>: its decimal digits.\<close>

fun String_nat :: "nat \<Rightarrow> jsstring" where
  "String_nat n =
     (if n < 10 then [of_nat (48 + n)]
      else String_nat (n div 10) @ [of_nat (48 + n mod 10)])"

declare String_nat.simps [simp del]

subsection \<open>JSON values\<close>

text \<open>
  The values \<^verbatim>\<open>JSON.parse\<close> returns and \<^verbatim>\<open>JSON.stringify\<close> takes. The type of numbers is
  a parameter: the handlers never look inside a number.
\<close>

datatype 'n json =
    JNull
  | JBool bool
  | JNumber 'n
  | JString jsstring
  | JArray "'n json list"
  | JObject "(jsstring \<times> 'n json) list"

subsection \<open>Database rows, server state, requests and responses\<close>

text \<open>The two tables of the README's schema.\<close>

record user_row =
  user_id :: nat
  user_email :: jsstring
  user_password :: jsstring
  user_created_at :: nat

record car_row =
  car_id :: nat
  car_filename :: jsstring
  car_url :: jsstring
  car_user_id :: nat
  car_info :: jsstring
  car_uploaded_at :: nat

text \<open>A path below \<^verbatim>\<open>__dirname\<close>, as its components.\<close>

type_synonym path = "jsstring list"

record state =
  users :: "user_row list"
  cars :: "car_row list"
  users_auto_increment :: nat
  cars_auto_increment :: nat
  dirs :: "path set"
  files :: "path \<rightharpoonup> bytes"

text \<open>
  The payload of a token: \<^verbatim>\<open>{ id: user.id, username: user.username }\<close>. The users table
  has no username column, so \<^verbatim>\<open>user.username\<close> is always \<^verbatim>\<open>undefined\<close>.
\<close>

record payload =
  payload_id :: nat
  payload_username :: "jsstring option"

text \<open>
  The environment of one request:
  \<^item> \<open>jwt_verify\<close>: \<^verbatim>\<open>jwt.verify(token, JWT_SECRET, cb)\<close>, \<open>None\<close> when the callback
    receives an error (malformed token, wrong signature, expired);
  \<^item> \<open>jwt_sign\<close>: \<^verbatim>\<open>jwt.sign(payload, JWT_SECRET, { expiresIn: '1h' })\<close>;
  \<^item> \<open>bcrypt_hash\<close>: \<^verbatim>\<open>bcrypt.hash(password, 10)\<close> (the salt is drawn by the library);
  \<^item> \<open>bcrypt_compare\<close>: \<^verbatim>\<open>bcrypt.compare(password, hash)\<close>;
  \<^item> \<open>generateContent\<close>: the Gemini call on the image (\<^verbatim>\<open>model.generateContent\<close>,
    \<^verbatim>\<open>result.response\<close>, \<^verbatim>\<open>response.text()\<close>), \<open>None\<close> when any of the three throws;
  \<^item> \<open>JSON_parse\<close>: \<open>None\<close> when \<^verbatim>\<open>JSON.parse\<close> throws; \<open>JSON_stringify\<close>;
  \<^item> \<open>Date_now\<close>: \<^verbatim>\<open>Date.now()\<close> when multer names the file;
  \<^item> \<open>CURRENT_TIMESTAMP\<close>: the database clock at an insert;
  \<^item> \<open>db_error k\<close>: the \<open>k\<close>-th query of the request fails in the database
    (for the insert of a user: with an error other than \<^verbatim>\<open>ER_DUP_ENTRY\<close>);
  \<^item> \<open>unlink_error\<close>: \<^verbatim>\<open>fs.unlink\<close> reports an error and leaves the file.
\<close>

record 'n env =
  jwt_verify :: "jsstring \<Rightarrow> payload option"
  jwt_sign :: "payload \<Rightarrow> jsstring"
  bcrypt_hash :: "jsstring \<Rightarrow> jsstring"
  bcrypt_compare :: "jsstring \<Rightarrow> jsstring \<Rightarrow> bool"
  generateContent :: "bytes \<Rightarrow> jsstring option"
  JSON_parse :: "jsstring \<Rightarrow> 'n json option"
  JSON_stringify :: "'n json \<Rightarrow> jsstring"
  Date_now :: nat
  CURRENT_TIMESTAMP :: nat
  db_error :: "nat \<Rightarrow> bool"
  unlink_error :: bool

text \<open>
  A request: the \<^verbatim>\<open>Authorization\<close> header, the fields of a JSON body, the file part named
  \<^verbatim>\<open>image\<close> of a multipart body (original name and content), and the \<^verbatim>\<open>:id\<close> segment of
  the path (as the number the database compares the \<^verbatim>\<open>id\<close> column with).
\<close>

record request =
  authorization :: "jsstring option"
  body_email :: "jsstring option"
  body_password :: "jsstring option"
  file_image :: "(jsstring \<times> bytes) option"
  params_id :: nat

text \<open>
  A response: status and body. \<open>Text\<close> is \<^verbatim>\<open>res.send\<close> of a literal, \<open>Json\<close> is
  \<^verbatim>\<open>res.json\<close> of an object, \<open>Rows\<close> is \<^verbatim>\<open>res.json\<close> of a result set. \<open>Unhandled\<close> is an
  exception that escapes an \<^verbatim>\<open>async\<close> handler: no response is written.
\<close>

datatype 'n body = Text string | Json "'n json" | Rows "car_row list"

datatype 'n response = Response nat "'n body" | Unhandled

text \<open>
  \<^verbatim>\<open>res.sendStatus(code)\<close>: the status, with its reason phrase as body. The source calls it
  with 401 and 403 only.
\<close>

definition sendStatus :: "nat \<Rightarrow> 'n response" where
  "sendStatus code =
     Response code (Text (if code = 401 then ''Unauthorized''
                          else if code = 403 then ''Forbidden'' else ''''))"

subsection \<open>\<^verbatim>\<open>authenticateToken\<close>\<close>

text \<open>\<^verbatim>\<open>authHeader?.split(' ')[1]\<close>\<close>

definition header_token :: "jsstring option \<Rightarrow> jsstring option" where
  "header_token authHeader =
     (case authHeader of
        None \<Rightarrow> None
      | Some h \<Rightarrow> (case split 0x20 h of _ # token # _ \<Rightarrow> Some token | _ \<Rightarrow> None))"

text \<open>
  The middleware answers 401 or 403 itself (\<open>Inl\<close>), or attaches the decoded payload to the
  request as \<^verbatim>\<open>req.user\<close> and calls \<^verbatim>\<open>next()\<close> (\<open>Inr\<close>).
\<close>

definition authenticateToken :: "'n env \<Rightarrow> request \<Rightarrow> 'n response + payload" where
  "authenticateToken env req =
     (case header_token (authorization req) of
        None \<Rightarrow> Inl (sendStatus 401)
      | Some token \<Rightarrow>
          if token = [] then Inl (sendStatus 401)
          else (case jwt_verify env token of
                  None \<Rightarrow> Inl (sendStatus 403)
                | Some user \<Rightarrow> Inr user))"

subsection \<open>The multer storage engine\<close>

text \<open>
  \<^verbatim>\<open>upload.single('image')\<close> with the disk storage of \<^verbatim>\<open>app.js\<close>: when the request carries a
  file part named \<^verbatim>\<open>image\<close>, \<^verbatim>\<open>destination\<close> creates \<^verbatim>\<open>cars/<id>\<close> if it is missing
  (\<^verbatim>\<open>recursive\<close>, so \<^verbatim>\<open>cars\<close> too), \<^verbatim>\<open>filename\<close> is \<^verbatim>\<open>Date.now() + '-' + originalname\<close>, the
  content is written there and \<^verbatim>\<open>req.file.path\<close> is set. Without such a part \<^verbatim>\<open>req.file\<close> stays
  \<^verbatim>\<open>undefined\<close> and nothing is written.
\<close>

definition storage_destination :: "payload \<Rightarrow> path" where
  "storage_destination user = [js ''cars'', String_nat (payload_id user)]"

definition storage_filename :: "'n env \<Rightarrow> jsstring \<Rightarrow> jsstring" where
  "storage_filename env originalname = String_nat (Date_now env) @ js ''-'' @ originalname"

definition multer_single :: "'n env \<Rightarrow> payload \<Rightarrow> request \<Rightarrow> state \<Rightarrow> path option \<times> state" where
  "multer_single env user req s =
     (case file_image req of
        None \<Rightarrow> (None, s)
      | Some (originalname, content) \<Rightarrow>
          let userFolder = storage_destination user;
              s1 = (if userFolder \<in> dirs s then s
                    else s\<lparr>dirs := dirs s \<union> {[js ''cars''], userFolder}\<rparr>);
              filepath = userFolder @ [storage_filename env originalname]
          in (Some filepath, s1\<lparr>files := (files s1)(filepath \<mapsto> content)\<rparr>))"

subsection \<open>Cleaning the answer of Gemini\<close>

text \<open>
  \<^verbatim>\<open>carInfoTextRaw.replace(/```json\s*([\s\S]*?)\s*```/, '$1')\<close>: the leftmost match is replaced
  by its group. At a start position the expression matches the literal \<^verbatim>\<open>```json\<close>, then all
  the whitespace that follows (greedy), then the shortest group after which optional
  whitespace and a closing \<^verbatim>\<open>```\<close> follow (lazy). Giving back whitespace of the first \<^verbatim>\<open>\s*\<close>
  or of the second cannot turn a failure into a match, since the closing fence starts with
  a character that is not whitespace; so each greedy \<^verbatim>\<open>\s*\<close> is \<open>dropWhile is_ws\<close>.
\<close>

definition fence :: jsstring where
  "fence = [0x60, 0x60, 0x60]"

definition fence_json :: jsstring where
  "fence_json = fence @ js ''json''"

definition starts_with :: "'a list \<Rightarrow> 'a list \<Rightarrow> bool" where
  "starts_with p t \<longleftrightarrow> take (length p) t = p"

text \<open>
  \<^verbatim>\<open>([\s\S]*?)\s*```\<close> at the start of \<open>t\<close>: the group and the text after the closing fence.
\<close>

fun lazy_group :: "jsstring \<Rightarrow> (jsstring \<times> jsstring) option" where
  "lazy_group [] = None"
| "lazy_group (c # t) =
     (if starts_with fence (dropWhile is_ws (c # t))
      then Some ([], drop (length fence) (dropWhile is_ws (c # t)))
      else map_option (\<lambda>(g, r). (c # g, r)) (lazy_group t))"

fun replace_fence :: "jsstring \<Rightarrow> jsstring" where
  "replace_fence [] = []"
| "replace_fence (c # t) =
     (if starts_with fence_json (c # t)
      then (case lazy_group (dropWhile is_ws (drop (length fence_json) (c # t))) of
              Some (g, r) \<Rightarrow> g @ r
            | None \<Rightarrow> c # replace_fence t)
      else c # replace_fence t)"

subsection \<open>The tables\<close>

text \<open>
  \<^verbatim>\<open>INSERT INTO users (email, password) VALUES (?, ?)\<close> and
  \<^verbatim>\<open>INSERT INTO cars (filename, url, user_id, car_info) VALUES (?, ?, ?, ?)\<close>: the id is the
  table's \<^verbatim>\<open>AUTO_INCREMENT\<close> counter, the timestamp column defaults to the database clock.
\<close>

definition insert_user :: "'n env \<Rightarrow> jsstring \<Rightarrow> jsstring \<Rightarrow> state \<Rightarrow> state" where
  "insert_user env email hashedPassword s =
     s\<lparr>users := users s @
            [\<lparr>user_id = users_auto_increment s, user_email = email,
              user_password = hashedPassword, user_created_at = CURRENT_TIMESTAMP env\<rparr>],
       users_auto_increment := Suc (users_auto_increment s)\<rparr>"

definition insert_car :: "'n env \<Rightarrow> jsstring \<Rightarrow> jsstring \<Rightarrow> nat \<Rightarrow> jsstring \<Rightarrow> state \<Rightarrow> state" where
  "insert_car env filename url userId carInfoJson s =
     s\<lparr>cars := cars s @
            [\<lparr>car_id = cars_auto_increment s, car_filename = filename, car_url = url,
              car_user_id = userId, car_info = carInfoJson,
              car_uploaded_at = CURRENT_TIMESTAMP env\<rparr>],
       cars_auto_increment := Suc (cars_auto_increment s)\<rparr>"

text \<open>\<^verbatim>\<open>SELECT * FROM cars WHERE id = ? AND user_id = ?\<close>\<close>

definition select_owned :: "nat \<Rightarrow> nat \<Rightarrow> state \<Rightarrow> car_row list" where
  "select_owned imageId userId s =
     filter (\<lambda>r. car_id r = imageId \<and> car_user_id r = userId) (cars s)"

text \<open>\<^verbatim>\<open>DELETE FROM cars WHERE id = ? AND user_id = ?\<close>\<close>

definition delete_owned :: "nat \<Rightarrow> nat \<Rightarrow> state \<Rightarrow> state" where
  "delete_owned imageId userId s =
     s\<lparr>cars := filter (\<lambda>r. \<not> (car_id r = imageId \<and> car_user_id r = userId)) (cars s)\<rparr>"

text \<open>
  \<^verbatim>\<open>SELECT * FROM cars WHERE user_id = ? ORDER BY uploaded_at DESC\<close>. SQL leaves the order of
  rows with equal timestamps open; the model takes the stable ascending sort, reversed.
\<close>

definition select_by_owner :: "nat \<Rightarrow> state \<Rightarrow> car_row list" where
  "select_by_owner userId s =
     rev (sort_key car_uploaded_at (filter (\<lambda>r. car_user_id r = userId) (cars s)))"


subsection \<open>The route handlers\<close>

definition json_error :: "string \<Rightarrow> 'n body" where
  "json_error msg = Json (JObject [(js ''error'', JString (js msg))])"

text \<open>
  \<^verbatim>\<open>const { email, password } = req.body; if (!email || !password) ...\<close>: a field is
  \<^verbatim>\<open>undefined\<close> (\<open>None\<close>) or a string, and \<^verbatim>\<open>!v\<close> holds for \<^verbatim>\<open>undefined\<close> and for the empty
  string. \<open>None\<close> is the case where the handler answers that both are required.
\<close>

definition credentials :: "request \<Rightarrow> (jsstring \<times> jsstring) option" where
  "credentials req =
     (case (body_email req, body_password req) of
        (Some email, Some password) \<Rightarrow>
          if email = [] \<or> password = [] then None else Some (email, password)
      | _ \<Rightarrow> None)"

text \<open>
  \<^verbatim>\<open>POST /signup\<close>. The insert fails with \<^verbatim>\<open>ER_DUP_ENTRY\<close> when the email is already in the
  table (the column is \<^verbatim>\<open>UNIQUE\<close>).
\<close>

definition signup :: "'n env \<Rightarrow> request \<Rightarrow> state \<Rightarrow> 'n response \<times> state" where
  "signup env req s =
     (case credentials req of
        None \<Rightarrow> (Response 400 (json_error ''Email and password required''), s)
      | Some (email, password) \<Rightarrow>
          let hashedPassword = bcrypt_hash env password
          in if db_error env 0 then (Response 500 (json_error ''Database error''), s)
             else if email \<in> set (map user_email (users s))
             then (Response 409 (json_error ''Email already exists''), s)
             else (Response 201 (Json (JObject [(js ''message'', JString (js ''User created''))])),
                   insert_user env email hashedPassword s))"


text \<open>\<^verbatim>\<open>path.basename\<close> of a path given by its components\<close>

definition path_basename :: "path \<Rightarrow> jsstring" where
  "path_basename p = (case rev p of [] \<Rightarrow> [] | f # _ \<Rightarrow> f)"

text \<open>
  The handler of \<^verbatim>\<open>POST /upload\<close>, after \<^verbatim>\<open>authenticateToken\<close> and multer. The read of the
  file is outside the \<^verbatim>\<open>try\<close>; the Gemini call, the parse and the insert are inside, and
  the parse has a \<^verbatim>\<open>try\<close> of its own.
\<close>

definition carInfoJson_of :: "'n env \<Rightarrow> jsstring \<Rightarrow> jsstring" where
  "carInfoJson_of env carInfoTextRaw =
     (let carInfoText = trim (replace_fence carInfoTextRaw) in
      case JSON_parse env carInfoText of
        Some v \<Rightarrow> JSON_stringify env v
      | None \<Rightarrow> JSON_stringify env (JObject [(js ''description'', JString carInfoTextRaw)]))"

definition upload_handler :: "'n env \<Rightarrow> payload \<Rightarrow> path option \<Rightarrow> state \<Rightarrow> 'n response \<times> state" where
  "upload_handler env user file_path s =
     (case file_path of
        None \<Rightarrow> (Response 400 (Text ''No file uploaded''), s)
      | Some filepath \<Rightarrow>
          (case files s filepath of
             None \<Rightarrow> (Unhandled, s)
           | Some imageData \<Rightarrow>
               (case generateContent env imageData of
                  None \<Rightarrow> (Response 500 (Text ''Gemini image analysis failed''), s)
                | Some carInfoTextRaw \<Rightarrow>
                    let carInfoJson = carInfoJson_of env carInfoTextRaw;
                        filename = path_basename filepath;
                        url = js ''/cars/'' @ String_nat (payload_id user) @ js ''/'' @ filename
                    in if db_error env 0
                       then (Response 500 (Text ''Gemini image analysis failed''), s)
                       else (Response 200 (Json (JObject
                               [(js ''message'', JString (js ''Uploaded & analyzed'')),
                                (js ''url'', JString url),
                                (js ''carInfo'', JString carInfoJson)])),
                             insert_car env filename url (payload_id user) carInfoJson s))))"

text \<open>\<^verbatim>\<open>app.post('/upload', authenticateToken, upload.single('image'), handler)\<close>\<close>

definition upload :: "'n env \<Rightarrow> request \<Rightarrow> state \<Rightarrow> 'n response \<times> state" where
  "upload env req s =
     (case authenticateToken env req of
        Inl res \<Rightarrow> (res, s)
      | Inr user \<Rightarrow>
          (case multer_single env user req s of
             (file_path, s1) \<Rightarrow> upload_handler env user file_path s1))"

text \<open>
  \<^verbatim>\<open>DELETE /images/:id\<close>. \<^verbatim>\<open>fs.unlink\<close> is started before the delete query and its error is only
  logged; a failure of the delete query answers 500 after the file is gone.
\<close>

definition delete_handler :: "'n env \<Rightarrow> payload \<Rightarrow> request \<Rightarrow> state \<Rightarrow> 'n response \<times> state" where
  "delete_handler env user req s =
     (let imageId = params_id req; userId = payload_id user in
      if db_error env 0 then (Response 500 (Text ''Server error while deleting image''), s)
      else (case select_owned imageId userId s of
              [] \<Rightarrow> (Response 404 (Text ''Image not found or not owned by user''), s)
            | row # _ \<Rightarrow>
                let filePath = [js ''cars'', String_nat userId, car_filename row];
                    s1 = (if unlink_error env then s
                          else s\<lparr>files := (files s)(filePath := None)\<rparr>)
                in if db_error env 1
                   then (Response 500 (Text ''Server error while deleting image''), s1)
                   else (Response 200 (Text ''Image deleted successfully''),
                         delete_owned imageId userId s1)))"

definition delete_image :: "'n env \<Rightarrow> request \<Rightarrow> state \<Rightarrow> 'n response \<times> state" where
  "delete_image env req s =
     (case authenticateToken env req of
        Inl res \<Rightarrow> (res, s)
      | Inr user \<Rightarrow> delete_handler env user req s)"

text \<open>\<^verbatim>\<open>GET /images\<close>\<close>

definition images_handler :: "'n env \<Rightarrow> payload \<Rightarrow> state \<Rightarrow> 'n response \<times> state" where
  "images_handler env user s =
     (if db_error env 0 then (Response 500 (Text ''DB error''), s)
      else (Response 200 (Rows (select_by_owner (payload_id user) s)), s))"

definition images :: "'n env \<Rightarrow> request \<Rightarrow> state \<Rightarrow> 'n response \<times> state" where
  "images env req s =
     (case authenticateToken env req of
        Inl res \<Rightarrow> (res, s)
      | Inr user \<Rightarrow> images_handler env user s)"

subsection \<open>A reference implementation of \<^verbatim>\<open>JSON.parse\<close> and \<^verbatim>\<open>JSON.stringify\<close>\<close>

text \<open>
  The handlers take \<^verbatim>\<open>JSON.parse\<close> and \<^verbatim>\<open>JSON.stringify\<close> from the environment. This section
  gives one environment to run them in: the JSON grammar of ECMA-404 and the serialisation of
  ECMAScript (property order of an object: array indices ascending, then the other keys in
  order of creation; a repeated key keeps its first place and its last value), with numbers
  restricted to integer literals of magnitude up to \<open>2^53\<close>, which a double holds exactly.
  A number with a fraction or an exponent, or a larger one, is outside this fragment and
  \<open>JSON_parse_ref\<close> gives \<open>None\<close> for it. The parser counts its nesting and its members
  down from the length of the text.
\<close>

definition json_ws :: "code_unit \<Rightarrow> bool" where
  "json_ws c \<longleftrightarrow> c = 0x20 \<or> c = 0x9 \<or> c = 0xA \<or> c = 0xD"

definition is_digit :: "code_unit \<Rightarrow> bool" where
  "is_digit c \<longleftrightarrow> 0x30 \<le> c \<and> c \<le> 0x39"

definition int_of_digits :: "jsstring \<Rightarrow> int" where
  "int_of_digits ds = foldl (\<lambda>n c. 10 * n + (uint c - 48)) 0 ds"

definition hex_val :: "code_unit \<Rightarrow> nat option" where
  "hex_val c =
     (if 0x30 \<le> c \<and> c \<le> 0x39 then Some (unat c - 48)
      else if 0x41 \<le> c \<and> c \<le> 0x46 then Some (unat c - 55)
      else if 0x61 \<le> c \<and> c \<le> 0x66 then Some (unat c - 87)
      else None)"

definition unescape :: "code_unit \<Rightarrow> code_unit option" where
  "unescape e =
     (if e = 0x22 \<or> e = 0x5C \<or> e = 0x2F then Some e
      else if e = 0x62 then Some 0x8
      else if e = 0x66 then Some 0xC
      else if e = 0x6E then Some 0xA
      else if e = 0x72 then Some 0xD
      else if e = 0x74 then Some 0x9
      else None)"

definition cons_fst :: "'a \<Rightarrow> ('a list \<times> 'b) option \<Rightarrow> ('a list \<times> 'b) option" where
  "cons_fst c = map_option (\<lambda>(g, r). (c # g, r))"

fun parse_chars :: "jsstring \<Rightarrow> (jsstring \<times> jsstring) option" where
  "parse_chars [] = None"
| "parse_chars (c # t) =
     (if c = 0x22 then Some ([], t)
      else if c < 0x20 then None
      else if c = 0x5C then
        (case t of
           [] \<Rightarrow> None
         | e # t1 \<Rightarrow>
             if e = 0x75 then
               (case t1 of
                  h1 # h2 # h3 # h4 # t2 \<Rightarrow>
                    (case (hex_val h1, hex_val h2, hex_val h3, hex_val h4) of
                       (Some x1, Some x2, Some x3, Some x4) \<Rightarrow>
                         cons_fst (of_nat (((x1 * 16 + x2) * 16 + x3) * 16 + x4)) (parse_chars t2)
                     | _ \<Rightarrow> None)
                | _ \<Rightarrow> None)
             else (case unescape e of
                     None \<Rightarrow> None
                   | Some u \<Rightarrow> cons_fst u (parse_chars t1)))
      else cons_fst c (parse_chars t))"

definition parse_number :: "jsstring \<Rightarrow> (int \<times> jsstring) option" where
  "parse_number t =
     (let neg = starts_with [0x2D] t;
          t1 = (if neg then drop 1 t else t);
          ds = takeWhile is_digit t1;
          r = dropWhile is_digit t1;
          n = int_of_digits ds
      in if ds = [] \<or> (starts_with [0x30] ds \<and> length ds > 1) then None
         else if starts_with [0x2E] r \<or> starts_with [0x65] r \<or> starts_with [0x45] r then None
         else if n > 9007199254740992 then None
         else Some (if neg then - n else n, r))"

fun set_member :: "jsstring \<Rightarrow> 'v \<Rightarrow> (jsstring \<times> 'v) list \<Rightarrow> (jsstring \<times> 'v) list" where
  "set_member k v [] = [(k, v)]"
| "set_member k v ((k', v') # ms) =
     (if k' = k then (k, v) # ms else (k', v') # set_member k v ms)"

definition array_index :: "jsstring \<Rightarrow> int option" where
  "array_index k =
     (if k \<noteq> [] \<and> list_all is_digit k \<and> (if starts_with [0x30] k then length k = 1 else True)
         \<and> int_of_digits k < 4294967295
      then Some (int_of_digits k) else None)"

definition own_keys_order :: "(jsstring \<times> 'v) list \<Rightarrow> (jsstring \<times> 'v) list" where
  "own_keys_order ms =
     sort_key (\<lambda>m. int_of_digits (fst m)) (filter (\<lambda>m. array_index (fst m) \<noteq> None) ms)
     @ filter (\<lambda>m. array_index (fst m) = None) ms"

fun parse_value :: "nat \<Rightarrow> jsstring \<Rightarrow> (int json \<times> jsstring) option"
  and parse_elements :: "nat \<Rightarrow> int json list \<Rightarrow> jsstring \<Rightarrow> (int json list \<times> jsstring) option"
  and parse_members :: "nat \<Rightarrow> (jsstring \<times> int json) list \<Rightarrow> jsstring \<Rightarrow> ((jsstring \<times> int json) list \<times> jsstring) option"
where
  "parse_value 0 t = None"
| "parse_value (Suc n) t =
     (case dropWhile json_ws t of
        [] \<Rightarrow> None
      | c # r \<Rightarrow>
          if c = 0x7B then
            (if starts_with [0x7D] (dropWhile json_ws r)
             then Some (JObject [], drop 1 (dropWhile json_ws r))
             else map_option (\<lambda>(ms, r'). (JObject (own_keys_order ms), r')) (parse_members n [] r))
          else if c = 0x5B then
            (if starts_with [0x5D] (dropWhile json_ws r)
             then Some (JArray [], drop 1 (dropWhile json_ws r))
             else map_option (\<lambda>(vs, r'). (JArray vs, r')) (parse_elements n [] r))
          else if c = 0x22 then map_option (\<lambda>(str, r'). (JString str, r')) (parse_chars r)
          else if starts_with (js ''true'') (c # r) then Some (JBool True, drop 4 (c # r))
          else if starts_with (js ''false'') (c # r) then Some (JBool False, drop 5 (c # r))
          else if starts_with (js ''null'') (c # r) then Some (JNull, drop 4 (c # r))
          else map_option (\<lambda>(k, r'). (JNumber k, r')) (parse_number (c # r)))"
| "parse_elements 0 acc t = None"
| "parse_elements (Suc n) acc t =
     (case parse_value n t of
        None \<Rightarrow> None
      | Some (v, r) \<Rightarrow>
          (case dropWhile json_ws r of
             [] \<Rightarrow> None
           | c # r' \<Rightarrow>
               if c = 0x2C then parse_elements n (acc @ [v]) r'
               else if c = 0x5D then Some (acc @ [v], r')
               else None))"
| "parse_members 0 acc t = None"
| "parse_members (Suc n) acc t =
     (case dropWhile json_ws t of
        [] \<Rightarrow> None
      | q # r \<Rightarrow>
          if q \<noteq> 0x22 then None
          else (case parse_chars r of
                  None \<Rightarrow> None
                | Some (key, r1) \<Rightarrow>
                    (case dropWhile json_ws r1 of
                       [] \<Rightarrow> None
                     | colon # r2 \<Rightarrow>
                         if colon \<noteq> 0x3A then None
                         else (case parse_value n r2 of
                                 None \<Rightarrow> None
                               | Some (v, r3) \<Rightarrow>
                                   (case dropWhile json_ws r3 of
                                      [] \<Rightarrow> None
                                    | c # r4 \<Rightarrow>
                                        if c = 0x2C then parse_members n (set_member key v acc) r4
                                        else if c = 0x7D then Some (set_member key v acc, r4)
                                        else None)))))"

definition JSON_parse_ref :: "jsstring \<Rightarrow> int json option" where
  "JSON_parse_ref t =
     (case parse_value (Suc (length t)) t of
        None \<Rightarrow> None
      | Some (v, r) \<Rightarrow> if dropWhile json_ws r = [] then Some v else None)"

definition hex_digit :: "nat \<Rightarrow> code_unit" where
  "hex_digit d = (if d < 10 then of_nat (48 + d) else of_nat (87 + d))"

definition unicode_escape :: "code_unit \<Rightarrow> jsstring" where
  "unicode_escape c =
     [0x5C, 0x75, hex_digit (unat c div 4096), hex_digit (unat c div 256 mod 16),
      hex_digit (unat c div 16 mod 16), hex_digit (unat c mod 16)]"

definition high_surrogate :: "code_unit \<Rightarrow> bool" where
  "high_surrogate c \<longleftrightarrow> 0xD800 \<le> c \<and> c \<le> 0xDBFF"

definition low_surrogate :: "code_unit \<Rightarrow> bool" where
  "low_surrogate c \<longleftrightarrow> 0xDC00 \<le> c \<and> c \<le> 0xDFFF"

fun quote_chars :: "jsstring \<Rightarrow> jsstring" where
  "quote_chars [] = []"
| "quote_chars [c] =
     (if c = 0x8 then [0x5C, 0x62]
      else if c = 0x9 then [0x5C, 0x74]
      else if c = 0xA then [0x5C, 0x6E]
      else if c = 0xC then [0x5C, 0x66]
      else if c = 0xD then [0x5C, 0x72]
      else if c = 0x22 then [0x5C, 0x22]
      else if c = 0x5C then [0x5C, 0x5C]
      else if c < 0x20 \<or> high_surrogate c \<or> low_surrogate c then unicode_escape c
      else [c])"
| "quote_chars (c # d # t) =
     (if high_surrogate c \<and> low_surrogate d then c # d # quote_chars t
      else quote_chars [c] @ quote_chars (d # t))"

definition QuoteJSONString :: "jsstring \<Rightarrow> jsstring" where
  "QuoteJSONString str = [0x22] @ quote_chars str @ [0x22]"

fun join :: "'a list \<Rightarrow> 'a list list \<Rightarrow> 'a list" where
  "join sep [] = []"
| "join sep [x] = x"
| "join sep (x # y # ys) = x @ sep @ join sep (y # ys)"

fun JSON_stringify_ref :: "int json \<Rightarrow> jsstring" where
  "JSON_stringify_ref JNull = js ''null''"
| "JSON_stringify_ref (JBool b) = (if b then js ''true'' else js ''false'')"
| "JSON_stringify_ref (JNumber k) =
     (if k < 0 then 0x2D # String_nat (nat (- k)) else String_nat (nat k))"
| "JSON_stringify_ref (JString str) = QuoteJSONString str"
| "JSON_stringify_ref (JArray vs) = [0x5B] @ join [0x2C] (map JSON_stringify_ref vs) @ [0x5D]"
| "JSON_stringify_ref (JObject ms) =
     [0x7B] @ join [0x2C] (map (\<lambda>m. QuoteJSONString (fst m) @ [0x3A] @ JSON_stringify_ref (snd m)) ms)
     @ [0x7D]"

subsection \<open>A server to run the handlers on\<close>

text \<open>
  Two users (1 and 2), one car of user 1 with its file, and an environment whose token and
  password functions are transparent stand-ins for the libraries.
\<close>

definition ex_answer :: jsstring where
  "ex_answer = fence_json @ js '' {\"make\":\"Toyota\",\"model\":\"Corolla\",\"year\":2020} '' @ fence"

definition ex_env :: "int env" where
  "ex_env =
     \<lparr>jwt_verify = (\<lambda>t. if t = js ''token-1'' then Some \<lparr>payload_id = 1, payload_username = None\<rparr>
                        else if t = js ''token-2'' then Some \<lparr>payload_id = 2, payload_username = None\<rparr>
                        else None),
      jwt_sign = (\<lambda>p. js ''token-'' @ String_nat (payload_id p)),
      bcrypt_hash = (\<lambda>pw. js ''hash:'' @ pw),
      bcrypt_compare = (\<lambda>pw h. h = js ''hash:'' @ pw),
      generateContent = (\<lambda>image. Some ex_answer),
      JSON_parse = JSON_parse_ref,
      JSON_stringify = JSON_stringify_ref,
      Date_now = 1723,
      CURRENT_TIMESTAMP = 50,
      db_error = (\<lambda>k. False),
      unlink_error = False\<rparr>"

definition ex_car :: car_row where
  "ex_car =
     \<lparr>car_id = 1, car_filename = js ''1000-old.jpg'', car_url = js ''/cars/1/1000-old.jpg'',
      car_user_id = 1, car_info = js ''{\"make\":\"Honda\"}'', car_uploaded_at = 10\<rparr>"

definition ex_user :: user_row where
  "ex_user =
     \<lparr>user_id = 1, user_email = js ''a@b.com'', user_password = js ''hash:pw123'',
      user_created_at = 1\<rparr>"

definition ex_state :: state where
  "ex_state =
     \<lparr>users = [ex_user,
               \<lparr>user_id = 2, user_email = js ''c@d.com'', user_password = js ''hash:secret'',
                user_created_at = 2\<rparr>],
      cars = [ex_car],
      users_auto_increment = 3,
      cars_auto_increment = 2,
      dirs = {[js ''cars''], [js ''cars'', js ''1'']},
      files = Map.empty([js ''cars'', js ''1'', js ''1000-old.jpg''] \<mapsto> [0xFF, 0xD8, 0x01])\<rparr>"

definition ex_request :: request where
  "ex_request =
     \<lparr>authorization = None, body_email = None, body_password = None,
      file_image = None, params_id = 0\<rparr>"

definition ex_upload :: request where
  "ex_upload =
     ex_request\<lparr>authorization := Some (js ''Bearer token-1''),
                 file_image := Some (js ''car.jpg'', [0xFF, 0xD8, 0x02])\<rparr>"

definition ex_upload_path :: path where
  "ex_upload_path = [js ''cars'', js ''1'', js ''1723-car.jpg'']"

definition ex_env_ai_down :: "int env" where
  "ex_env_ai_down = ex_env\<lparr>generateContent := (\<lambda>image. None)\<rparr>"

definition ex_env_prose :: "int env" where
  "ex_env_prose = ex_env\<lparr>generateContent := (\<lambda>image. Some (js ''A red car''))\<rparr>"



text \<open>A gallery: user 1 uploaded at times 10 and 30, user 2 at time 20.\<close>

definition ex_car_2 :: car_row where
  "ex_car_2 =
     \<lparr>car_id = 2, car_filename = js ''2000-b.jpg'', car_url = js ''/cars/2/2000-b.jpg'',
      car_user_id = 2, car_info = js ''{\"make\":\"Fiat\"}'', car_uploaded_at = 20\<rparr>"

definition ex_car_3 :: car_row where
  "ex_car_3 =
     \<lparr>car_id = 3, car_filename = js ''3000-c.jpg'', car_url = js ''/cars/1/3000-c.jpg'',
      car_user_id = 1, car_info = js ''{\"make\":\"Audi\"}'', car_uploaded_at = 30\<rparr>"

definition ex_gallery :: state where
  "ex_gallery = ex_state\<lparr>cars := [ex_car, ex_car_2, ex_car_3], cars_auto_increment := 4\<rparr>"

definition ex_bearer :: "string \<Rightarrow> request" where
  "ex_bearer token = ex_request\<lparr>authorization := Some (js ''Bearer '' @ js token)\<rparr>"

definition ex_credentials :: "string \<Rightarrow> string \<Rightarrow> request" where
  "ex_credentials email password =
     ex_request\<lparr>body_email := Some (js email), body_password := Some (js password)\<rparr>"




section \<open>Properties\<close>

subsection \<open>Authentication and the upload pipeline\<close>

lemma sendStatus_401: "sendStatus 401 = Response 401 (Text ''Unauthorized'')"
  by (simp add: sendStatus_def)

lemma sendStatus_403: "sendStatus 403 = Response 403 (Text ''Forbidden'')"
  by (simp add: sendStatus_def)

lemma authenticateToken_missing:
  "header_token (authorization req) = None \<or> header_token (authorization req) = Some [] \<Longrightarrow>
   authenticateToken env req = Inl (Response 401 (Text ''Unauthorized''))"
  by (auto simp: authenticateToken_def sendStatus_401)

lemma authenticateToken_invalid:
  "header_token (authorization req) = Some token \<Longrightarrow> token \<noteq> [] \<Longrightarrow>
   jwt_verify env token = None \<Longrightarrow>
   authenticateToken env req = Inl (Response 403 (Text ''Forbidden''))"
  by (simp add: authenticateToken_def sendStatus_403)

lemma authenticateToken_valid:
  "header_token (authorization req) = Some token \<Longrightarrow> token \<noteq> [] \<Longrightarrow>
   jwt_verify env token = Some user \<Longrightarrow> authenticateToken env req = Inr user"
  by (simp add: authenticateToken_def)

lemma authenticateToken_Inl:
  "authenticateToken env req = Inl res \<Longrightarrow>
   res = Response 401 (Text ''Unauthorized'') \<or> res = Response 403 (Text ''Forbidden'')"
  by (auto simp: authenticateToken_def sendStatus_401 sendStatus_403
           split: option.splits if_splits)

lemma path_basename_snoc: "path_basename (p @ [f]) = f"
  by (simp add: path_basename_def)

text \<open>What multer leaves behind when the request carries a file.\<close>

lemma multer_single_file:
  assumes "file_image req = Some (originalname, content)"
  shows "fst (multer_single env user req s) =
           Some (storage_destination user @ [storage_filename env originalname])"
    and "files (snd (multer_single env user req s)) =
           (files s)(storage_destination user @ [storage_filename env originalname] \<mapsto> content)"
    and "cars (snd (multer_single env user req s)) = cars s"
    and "users (snd (multer_single env user req s)) = users s"
    and "cars_auto_increment (snd (multer_single env user req s)) = cars_auto_increment s"
  using assms by (simp_all add: multer_single_def Let_def)

lemma multer_single_no_file:
  "file_image req = None \<Longrightarrow> multer_single env user req s = (None, s)"
  by (simp add: multer_single_def)

lemma upload_authenticated:
  "authenticateToken env req = Inr user \<Longrightarrow>
   upload env req s =
     upload_handler env user (fst (multer_single env user req s))
       (snd (multer_single env user req s))"
  by (simp add: upload_def split: prod.splits)

lemma upload_rejected:
  "authenticateToken env req = Inl res \<Longrightarrow> upload env req s = (res, s)"
  by (simp add: upload_def)

subsection \<open>C1: the Gemini call fails\<close>

text \<open>
  C1 says that an upload whose Gemini call fails answers 500 and persists nothing, neither a
  car row nor the uploaded file. The handler has no step that removes the file multer wrote
  before it ran: on the example server the call fails, the answer is 500, and the file
  \<^verbatim>\<open>cars/1/1723-car.jpg\<close>, absent before the request, is on disk after it.
\<close>

theorem upload_ai_error_file_remains:
  "generateContent ex_env_ai_down [0xFF, 0xD8, 0x02] = None \<and>
   fst (upload ex_env_ai_down ex_upload ex_state) =
     Response 500 (Text ''Gemini image analysis failed'') \<and>
   files ex_state ex_upload_path = None \<and>
   files (snd (upload ex_env_ai_down ex_upload ex_state)) ex_upload_path =
     Some [0xFF, 0xD8, 0x02]"
  by code_simp

text \<open>
  C1 as amended: an authenticated upload with a file whose Gemini call fails answers 500
  and inserts no car row (the users table is untouched too); the file written by the upload
  middleware stays on disk, and no other file changes.
\<close>

theorem upload_ai_error:
  assumes "authenticateToken env req = Inr user"
    and "file_image req = Some (originalname, content)"
    and "generateContent env content = None"
  shows "fst (upload env req s) = Response 500 (Text ''Gemini image analysis failed'') \<and>
         cars (snd (upload env req s)) = cars s \<and>
         users (snd (upload env req s)) = users s \<and>
         files (snd (upload env req s)) =
           (files s)(storage_destination user @ [storage_filename env originalname] \<mapsto> content)"
proof -
  let ?m = "multer_single env user req s"
  let ?p = "storage_destination user @ [storage_filename env originalname]"
  have p: "fst ?m = Some ?p"
    and f: "files (snd ?m) = (files s)(?p \<mapsto> content)"
    and c: "cars (snd ?m) = cars s" and u: "users (snd ?m) = users s"
    using multer_single_file [OF assms(2)] by blast+
  have "upload env req s = (Response 500 (Text ''Gemini image analysis failed''), snd ?m)"
    using assms(3) p f by (simp add: upload_authenticated [OF assms(1)] upload_handler_def)
  then show ?thesis using f c u by simp
qed

theorem upload_ai_error_witness:
  "authenticateToken ex_env_ai_down ex_upload = Inr \<lparr>payload_id = 1, payload_username = None\<rparr> \<and>
   file_image ex_upload = Some (js ''car.jpg'', [0xFF, 0xD8, 0x02]) \<and>
   generateContent ex_env_ai_down [0xFF, 0xD8, 0x02] = None \<and>
   fst (upload ex_env_ai_down ex_upload ex_state) =
     Response 500 (Text ''Gemini image analysis failed'') \<and>
   cars (snd (upload ex_env_ai_down ex_upload ex_state)) = cars ex_state \<and>
   files (snd (upload ex_env_ai_down ex_upload ex_state)) =
     (files ex_state)(ex_upload_path \<mapsto> [0xFF, 0xD8, 0x02])"
proof -
  have a: "authenticateToken ex_env_ai_down ex_upload =
             Inr \<lparr>payload_id = 1, payload_username = None\<rparr>"
    by code_simp
  have f: "file_image ex_upload = Some (js ''car.jpg'', [0xFF, 0xD8, 0x02])"
    by code_simp
  have g: "generateContent ex_env_ai_down [0xFF, 0xD8, 0x02] = None"
    by code_simp
  have p: "storage_destination \<lparr>payload_id = 1, payload_username = None\<rparr>
             @ [storage_filename ex_env_ai_down (js ''car.jpg'')] = ex_upload_path"
    by code_simp
  show ?thesis
    using upload_ai_error [OF a f g, of ex_state, unfolded p] a f g by blast
qed

lemma images_authenticated:
  "authenticateToken env req = Inr user \<Longrightarrow> images env req s = images_handler env user s"
  by (simp add: images_def)

lemma images_rejected:
  "authenticateToken env req = Inl res \<Longrightarrow> images env req s = (res, s)"
  by (simp add: images_def)

lemma delete_image_authenticated:
  "authenticateToken env req = Inr user \<Longrightarrow>
   delete_image env req s = delete_handler env user req s"
  by (simp add: delete_image_def)

lemma delete_image_rejected:
  "authenticateToken env req = Inl res \<Longrightarrow> delete_image env req s = (res, s)"
  by (simp add: delete_image_def)

subsection \<open>C5: no token, no file\<close>

text \<open>
  C5: an upload without a valid token is rejected before any file is written. The token is
  missing when the header is absent or has no non-empty second word (401) and invalid when
  \<^verbatim>\<open>jwt.verify\<close> reports an error (403). In both cases the server state after the request is
  the state before it: multer, which is the only writer of files, runs after
  \<^verbatim>\<open>authenticateToken\<close> and only when it calls \<^verbatim>\<open>next()\<close>.
\<close>

theorem upload_unauthenticated_writes_nothing:
  "(header_token (authorization req) = None \<or> header_token (authorization req) = Some []
      \<longrightarrow> upload env req s = (Response 401 (Text ''Unauthorized''), s)) \<and>
   (header_token (authorization req) = Some token \<and> token \<noteq> [] \<and> jwt_verify env token = None
      \<longrightarrow> upload env req s = (Response 403 (Text ''Forbidden''), s)) \<and>
   (authenticateToken env req = Inl res
      \<longrightarrow> upload env req s = (res, s) \<and> files (snd (upload env req s)) = files s \<and>
          dirs (snd (upload env req s)) = dirs s)"
  using authenticateToken_missing [of req env] authenticateToken_invalid [of req token env]
  by (auto simp: upload_rejected)

theorem upload_unauthenticated_writes_nothing_witness:
  "header_token (authorization (ex_upload\<lparr>authorization := None\<rparr>)) = None \<and>
   upload ex_env (ex_upload\<lparr>authorization := None\<rparr>) ex_state =
     (Response 401 (Text ''Unauthorized''), ex_state) \<and>
   header_token (authorization (ex_upload\<lparr>authorization := Some (js ''Bearer forged'')\<rparr>))
     = Some (js ''forged'') \<and>
   js ''forged'' \<noteq> [] \<and> jwt_verify ex_env (js ''forged'') = None \<and>
   upload ex_env (ex_upload\<lparr>authorization := Some (js ''Bearer forged'')\<rparr>) ex_state =
     (Response 403 (Text ''Forbidden''), ex_state) \<and>
   authenticateToken ex_env (ex_upload\<lparr>authorization := Some (js ''Bearer forged'')\<rparr>) =
     Inl (Response 403 (Text ''Forbidden'')) \<and>
   files (snd (upload ex_env (ex_upload\<lparr>authorization := Some (js ''Bearer forged'')\<rparr>) ex_state))
     = files ex_state \<and>
   files ex_state ex_upload_path = None"
proof -
  let ?anon = "ex_upload\<lparr>authorization := None\<rparr>"
  let ?forged = "ex_upload\<lparr>authorization := Some (js ''Bearer forged'')\<rparr>"
  have a: "header_token (authorization ?anon) = None" by code_simp
  have b: "header_token (authorization ?forged) = Some (js ''forged'')" by code_simp
  have c: "js ''forged'' \<noteq> []" by code_simp
  have d: "jwt_verify ex_env (js ''forged'') = None" by code_simp
  have e: "authenticateToken ex_env ?forged = Inl (Response 403 (Text ''Forbidden''))"
    by code_simp
  have f: "files ex_state ex_upload_path = None" by code_simp
  show ?thesis
    using upload_unauthenticated_writes_nothing [where req = ?anon and env = ex_env and s = ex_state]
      upload_unauthenticated_writes_nothing
        [where req = ?forged and token = "js ''forged''" and env = ex_env and s = ex_state
           and res = "Response 403 (Text ''Forbidden'')"]
      a b c d e f by blast
qed

subsection \<open>C8: the outcomes of token verification\<close>

text \<open>
  C8: on each authenticated endpoint (\<^verbatim>\<open>GET /images\<close>, \<^verbatim>\<open>DELETE /images/:id\<close>,
  \<^verbatim>\<open>POST /upload\<close>) a missing token answers 401, a token that \<^verbatim>\<open>jwt.verify\<close> rejects (bad
  signature, malformed, expired) answers 403, and these are the only two rejections; a token
  that verifies hands its decoded payload to the handler of the endpoint as \<^verbatim>\<open>req.user\<close>.
\<close>

theorem authenticateToken_outcomes:
  "(header_token (authorization req) = None \<or> header_token (authorization req) = Some []
      \<longrightarrow> authenticateToken env req = Inl (Response 401 (Text ''Unauthorized''))) \<and>
   (header_token (authorization req) = Some token \<and> token \<noteq> [] \<and> jwt_verify env token = None
      \<longrightarrow> authenticateToken env req = Inl (Response 403 (Text ''Forbidden''))) \<and>
   (header_token (authorization req) = Some token \<and> token \<noteq> [] \<and> jwt_verify env token = Some user
      \<longrightarrow> authenticateToken env req = Inr user \<and>
          images env req s = images_handler env user s \<and>
          delete_image env req s = delete_handler env user req s \<and>
          upload env req s =
            upload_handler env user (fst (multer_single env user req s))
              (snd (multer_single env user req s))) \<and>
   (authenticateToken env req = Inl res
      \<longrightarrow> (res = Response 401 (Text ''Unauthorized'') \<or> res = Response 403 (Text ''Forbidden'')) \<and>
          images env req s = (res, s) \<and> delete_image env req s = (res, s) \<and>
          upload env req s = (res, s))"
proof (intro conjI impI)
  assume "header_token (authorization req) = None \<or> header_token (authorization req) = Some []"
  then show "authenticateToken env req = Inl (Response 401 (Text ''Unauthorized''))"
    by (rule authenticateToken_missing)
next
  assume "header_token (authorization req) = Some token \<and> token \<noteq> [] \<and> jwt_verify env token = None"
  then show "authenticateToken env req = Inl (Response 403 (Text ''Forbidden''))"
    by (simp add: authenticateToken_invalid)
next
  assume h: "header_token (authorization req) = Some token \<and> token \<noteq> [] \<and>
             jwt_verify env token = Some user"
  then show v: "authenticateToken env req = Inr user"
    by (simp add: authenticateToken_valid)
  show "images env req s = images_handler env user s"
    by (rule images_authenticated [OF v])
  show "delete_image env req s = delete_handler env user req s"
    by (rule delete_image_authenticated [OF v])
  show "upload env req s =
          upload_handler env user (fst (multer_single env user req s))
            (snd (multer_single env user req s))"
    by (rule upload_authenticated [OF v])
next
  assume r: "authenticateToken env req = Inl res"
  show "res = Response 401 (Text ''Unauthorized'') \<or> res = Response 403 (Text ''Forbidden'')"
    by (rule authenticateToken_Inl [OF r])
  show "images env req s = (res, s)" by (rule images_rejected [OF r])
  show "delete_image env req s = (res, s)" by (rule delete_image_rejected [OF r])
  show "upload env req s = (res, s)" by (rule upload_rejected [OF r])
qed

theorem authenticateToken_outcomes_witness:
  "header_token (authorization ex_request) = None \<and>
   authenticateToken ex_env ex_request = Inl (Response 401 (Text ''Unauthorized'')) \<and>
   images ex_env ex_request ex_state = (Response 401 (Text ''Unauthorized''), ex_state) \<and>
   delete_image ex_env ex_request ex_state = (Response 401 (Text ''Unauthorized''), ex_state) \<and>
   upload ex_env ex_request ex_state = (Response 401 (Text ''Unauthorized''), ex_state) \<and>
   header_token (authorization (ex_bearer ''expired'')) = Some (js ''expired'') \<and>
   js ''expired'' \<noteq> [] \<and> jwt_verify ex_env (js ''expired'') = None \<and>
   authenticateToken ex_env (ex_bearer ''expired'') = Inl (Response 403 (Text ''Forbidden'')) \<and>
   header_token (authorization (ex_bearer ''token-2'')) = Some (js ''token-2'') \<and>
   js ''token-2'' \<noteq> [] \<and>
   jwt_verify ex_env (js ''token-2'') = Some \<lparr>payload_id = 2, payload_username = None\<rparr> \<and>
   authenticateToken ex_env (ex_bearer ''token-2'') = Inr \<lparr>payload_id = 2, payload_username = None\<rparr> \<and>
   images ex_env (ex_bearer ''token-2'') ex_state =
     images_handler ex_env \<lparr>payload_id = 2, payload_username = None\<rparr> ex_state"
proof -
  let ?expired = "ex_bearer ''expired''"
  let ?valid = "ex_bearer ''token-2''"
  let ?user = "\<lparr>payload_id = 2, payload_username = None\<rparr>"
  have a: "header_token (authorization ex_request) = None" by code_simp
  have b: "header_token (authorization ?expired) = Some (js ''expired'')" by code_simp
  have c: "js ''expired'' \<noteq> []" by code_simp
  have d: "jwt_verify ex_env (js ''expired'') = None" by code_simp
  have e: "header_token (authorization ?valid) = Some (js ''token-2'')" by code_simp
  have f: "js ''token-2'' \<noteq> []" by code_simp
  have g: "jwt_verify ex_env (js ''token-2'') = Some ?user" by code_simp
  have h: "authenticateToken ex_env ex_request = Inl (Response 401 (Text ''Unauthorized''))"
    using authenticateToken_outcomes [where req = ex_request and env = ex_env] a by blast
  show ?thesis
    using authenticateToken_outcomes [where req = ex_request and env = ex_env and s = ex_state
        and res = "Response 401 (Text ''Unauthorized'')"]
      authenticateToken_outcomes [where req = ?expired and token = "js ''expired''" and env = ex_env]
      authenticateToken_outcomes
        [where req = ?valid and token = "js ''token-2''" and env = ex_env and user = ?user
           and s = ex_state]
      a b c d e f g h by blast
qed

subsection \<open>C4: deleting what is not yours\<close>

lemma select_owned_empty:
  "\<forall>r\<in>set (cars s). car_id r = imageId \<longrightarrow> car_user_id r \<noteq> userId \<Longrightarrow>
   select_owned imageId userId s = []"
  by (auto simp: select_owned_def filter_empty_conv)

text \<open>
  C4: a delete by an authenticated user on an id that no car of that user has answers 404
  and changes nothing, whether the id belongs to a car of another user or to no car at all:
  the hypothesis covers both, and the answer is the same response in both. (The select is
  the first query of the request; when the database fails on it the answer is 500.)
\<close>

theorem delete_not_owned_not_found:
  assumes "authenticateToken env req = Inr user"
    and "\<not> db_error env 0"
    and "\<forall>r\<in>set (cars s). car_id r = params_id req \<longrightarrow> car_user_id r \<noteq> payload_id user"
  shows "delete_image env req s =
           (Response 404 (Text ''Image not found or not owned by user''), s)"
  using assms(2) select_owned_empty [OF assms(3)]
  by (simp add: delete_image_authenticated [OF assms(1)] delete_handler_def Let_def)

theorem delete_not_owned_not_found_witness:
  "authenticateToken ex_env (ex_request\<lparr>authorization := Some (js ''Bearer token-2''), params_id := 1\<rparr>)
     = Inr \<lparr>payload_id = 2, payload_username = None\<rparr> \<and>
   \<not> db_error ex_env 0 \<and>
   cars ex_state = [ex_car] \<and> car_id ex_car = 1 \<and> car_user_id ex_car = 1 \<and>
   delete_image ex_env (ex_request\<lparr>authorization := Some (js ''Bearer token-2''), params_id := 1\<rparr>)
       ex_state
     = (Response 404 (Text ''Image not found or not owned by user''), ex_state) \<and>
   delete_image ex_env (ex_request\<lparr>authorization := Some (js ''Bearer token-2''), params_id := 7\<rparr>)
       ex_state
     = (Response 404 (Text ''Image not found or not owned by user''), ex_state)"
proof -
  let ?other = "ex_request\<lparr>authorization := Some (js ''Bearer token-2''), params_id := 1\<rparr>"
  let ?absent = "ex_request\<lparr>authorization := Some (js ''Bearer token-2''), params_id := 7\<rparr>"
  let ?user = "\<lparr>payload_id = 2, payload_username = None\<rparr>"
  have a: "authenticateToken ex_env ?other = Inr ?user" by code_simp
  have a': "authenticateToken ex_env ?absent = Inr ?user" by code_simp
  have d: "\<not> db_error ex_env 0" by code_simp
  have c: "cars ex_state = [ex_car]" by code_simp
  have i: "car_id ex_car = 1" by code_simp
  have u: "car_user_id ex_car = 1" by code_simp
  have o: "\<forall>r\<in>set (cars ex_state). car_id r = params_id ?other \<longrightarrow> car_user_id r \<noteq> payload_id ?user"
    by (simp add: c u)
  have n: "\<forall>r\<in>set (cars ex_state). car_id r = params_id ?absent \<longrightarrow> car_user_id r \<noteq> payload_id ?user"
    by (simp add: c i)
  show ?thesis
    using delete_not_owned_not_found [OF a d o] delete_not_owned_not_found [OF a' d n] a d c i u
    by blast
qed

subsection \<open>C9: listing the images of a user\<close>

lemma select_by_owner_mset:
  "mset (select_by_owner userId s) = filter_mset (\<lambda>r. car_user_id r = userId) (mset (cars s))"
  by (simp add: select_by_owner_def)

lemma select_by_owner_sorted:
  "sorted_wrt (\<lambda>a b. car_uploaded_at b \<le> car_uploaded_at a) (select_by_owner userId s)"
proof -
  let ?xs = "sort_key car_uploaded_at (filter (\<lambda>r. car_user_id r = userId) (cars s))"
  have "sorted (map car_uploaded_at ?xs)" by (rule sorted_sort_key)
  then have "sorted_wrt (\<lambda>a b. car_uploaded_at a \<le> car_uploaded_at b) ?xs"
    by (simp add: sorted_wrt_map)
  then have "sorted_wrt (\<lambda>a b. car_uploaded_at b \<le> car_uploaded_at a) (rev ?xs)"
    by (simp add: sorted_wrt_rev)
  then show ?thesis by (simp add: select_by_owner_def)
qed

lemma select_by_owner_none:
  "\<forall>r\<in>set (cars s). car_user_id r \<noteq> userId \<Longrightarrow> select_by_owner userId s = []"
  by (simp add: select_by_owner_def filter_empty_conv[THEN iffD2])

text \<open>
  C9: for an authenticated user \<^verbatim>\<open>GET /images\<close> answers 200 with exactly the rows of the cars
  table owned by that user (as a multiset), in descending order of upload time; when the user
  owns no row the answer is 200 with the empty list.
\<close>

theorem images_of_owner_newest_first:
  assumes "authenticateToken env req = Inr user" and "\<not> db_error env 0"
  shows "images env req s = (Response 200 (Rows (select_by_owner (payload_id user) s)), s) \<and>
         mset (select_by_owner (payload_id user) s) =
           filter_mset (\<lambda>r. car_user_id r = payload_id user) (mset (cars s)) \<and>
         sorted_wrt (\<lambda>a b. car_uploaded_at b \<le> car_uploaded_at a)
           (select_by_owner (payload_id user) s) \<and>
         ((\<forall>r\<in>set (cars s). car_user_id r \<noteq> payload_id user) \<longrightarrow>
            images env req s = (Response 200 (Rows []), s))"
  using assms(2) select_by_owner_mset [of "payload_id user" s]
    select_by_owner_sorted [of "payload_id user" s] select_by_owner_none [of s "payload_id user"]
  by (auto simp: images_authenticated [OF assms(1)] images_handler_def)


theorem images_of_owner_newest_first_witness:
  "authenticateToken ex_env (ex_bearer ''token-1'') = Inr \<lparr>payload_id = 1, payload_username = None\<rparr> \<and>
   authenticateToken ex_env (ex_bearer ''token-2'') = Inr \<lparr>payload_id = 2, payload_username = None\<rparr> \<and>
   \<not> db_error ex_env 0 \<and>
   images ex_env (ex_bearer ''token-1'') ex_gallery = (Response 200 (Rows [ex_car_3, ex_car]), ex_gallery) \<and>
   cars ex_state = [ex_car] \<and> car_user_id ex_car = 1 \<and>
   images ex_env (ex_bearer ''token-2'') ex_state = (Response 200 (Rows []), ex_state)"
proof -
  let ?u1 = "\<lparr>payload_id = 1, payload_username = None\<rparr>"
  let ?u2 = "\<lparr>payload_id = 2, payload_username = None\<rparr>"
  have a: "authenticateToken ex_env (ex_bearer ''token-1'') = Inr ?u1" by code_simp
  have b: "authenticateToken ex_env (ex_bearer ''token-2'') = Inr ?u2" by code_simp
  have d: "\<not> db_error ex_env 0" by code_simp
  have r: "select_by_owner (payload_id ?u1) ex_gallery = [ex_car_3, ex_car]" by code_simp
  have c: "cars ex_state = [ex_car]" by code_simp
  have u: "car_user_id ex_car = 1" by code_simp
  have z: "\<forall>r\<in>set (cars ex_state). car_user_id r \<noteq> payload_id ?u2" by (simp add: c u)
  show ?thesis
    using images_of_owner_newest_first [OF a d, of ex_gallery, unfolded r]
      images_of_owner_newest_first [OF b d, of ex_state] z a b d c u
    by blast
qed

subsection \<open>C6: login\<close>

lemma credentials_Some:
  "body_email req = Some email \<Longrightarrow> email \<noteq> [] \<Longrightarrow>
   body_password req = Some password \<Longrightarrow> password \<noteq> [] \<Longrightarrow>
   credentials req = Some (email, password)"
  by (simp add: credentials_def)

lemma credentials_None:
  "body_email req = None \<or> body_email req = Some [] \<or>
   body_password req = None \<or> body_password req = Some [] \<Longrightarrow> credentials req = None"
  by (auto simp: credentials_def split: option.splits)






subsection \<open>C7: signup\<close>

lemma signup_distinct_emails:
  "distinct (map user_email (users s)) \<Longrightarrow>
   distinct (map user_email (users (snd (signup env req s))))"
  by (auto simp: signup_def insert_user_def Let_def split: option.splits)

text \<open>
  C7: a signup with both fields present and an email that is already in the users table
  answers 409 and leaves the table as it was; a signup with a missing (or empty) email or
  password answers 400; a signup with both fields and a new email answers 201 and appends
  one row. No signup ever makes two rows share an email.
\<close>

theorem signup_outcomes:
  "(body_email req = Some email \<and> email \<noteq> [] \<and> body_password req = Some password \<and>
      password \<noteq> [] \<and> \<not> db_error env 0 \<and> email \<in> set (map user_email (users s))
      \<longrightarrow> signup env req s = (Response 409 (json_error ''Email already exists''), s)) \<and>
   (body_email req = None \<or> body_email req = Some [] \<or>
      body_password req = None \<or> body_password req = Some []
      \<longrightarrow> signup env req s = (Response 400 (json_error ''Email and password required''), s)) \<and>
   (body_email req = Some email \<and> email \<noteq> [] \<and> body_password req = Some password \<and>
      password \<noteq> [] \<and> \<not> db_error env 0 \<and> email \<notin> set (map user_email (users s))
      \<longrightarrow> fst (signup env req s) =
            Response 201 (Json (JObject [(js ''message'', JString (js ''User created''))])) \<and>
          users (snd (signup env req s)) =
            users s @ [\<lparr>user_id = users_auto_increment s, user_email = email,
                        user_password = bcrypt_hash env password,
                        user_created_at = CURRENT_TIMESTAMP env\<rparr>]) \<and>
   (distinct (map user_email (users s))
      \<longrightarrow> distinct (map user_email (users (snd (signup env req s)))))"
proof (intro conjI impI)
  assume "body_email req = Some email \<and> email \<noteq> [] \<and> body_password req = Some password \<and>
      password \<noteq> [] \<and> \<not> db_error env 0 \<and> email \<in> set (map user_email (users s))"
  then show "signup env req s = (Response 409 (json_error ''Email already exists''), s)"
    by (simp add: signup_def credentials_Some)
next
  assume "body_email req = None \<or> body_email req = Some [] \<or>
      body_password req = None \<or> body_password req = Some []"
  then have "credentials req = None" by (rule credentials_None)
  then show "signup env req s = (Response 400 (json_error ''Email and password required''), s)"
    by (simp add: signup_def)
next
  assume h: "body_email req = Some email \<and> email \<noteq> [] \<and> body_password req = Some password \<and>
      password \<noteq> [] \<and> \<not> db_error env 0 \<and> email \<notin> set (map user_email (users s))"
  then have c: "credentials req = Some (email, password)" by (simp add: credentials_Some)
  show "fst (signup env req s) =
            Response 201 (Json (JObject [(js ''message'', JString (js ''User created''))]))"
    using h c by (simp add: signup_def)
  show "users (snd (signup env req s)) =
            users s @ [\<lparr>user_id = users_auto_increment s, user_email = email,
                        user_password = bcrypt_hash env password,
                        user_created_at = CURRENT_TIMESTAMP env\<rparr>]"
    using h c by (simp add: signup_def insert_user_def)
next
  assume "distinct (map user_email (users s))"
  then show "distinct (map user_email (users (snd (signup env req s))))"
    by (rule signup_distinct_emails)
qed

theorem signup_outcomes_witness:
  "js ''a@b.com'' \<in> set (map user_email (users ex_state)) \<and>
   js ''e@f.com'' \<notin> set (map user_email (users ex_state)) \<and>
   \<not> db_error ex_env 0 \<and> distinct (map user_email (users ex_state)) \<and>
   signup ex_env (ex_credentials ''a@b.com'' ''other'') ex_state =
     (Response 409 (json_error ''Email already exists''), ex_state) \<and>
   signup ex_env ex_request ex_state =
     (Response 400 (json_error ''Email and password required''), ex_state) \<and>
   fst (signup ex_env (ex_credentials ''e@f.com'' ''pw'') ex_state) =
     Response 201 (Json (JObject [(js ''message'', JString (js ''User created''))])) \<and>
   map user_email (users (snd (signup ex_env (ex_credentials ''e@f.com'' ''pw'') ex_state))) =
     [js ''a@b.com'', js ''c@d.com'', js ''e@f.com''] \<and>
   distinct (map user_email (users (snd (signup ex_env (ex_credentials ''e@f.com'' ''pw'') ex_state))))"
proof -
  let ?dup = "ex_credentials ''a@b.com'' ''other''"
  let ?new = "ex_credentials ''e@f.com'' ''pw''"
  have i: "js ''a@b.com'' \<in> set (map user_email (users ex_state))" by code_simp
  have o: "js ''e@f.com'' \<notin> set (map user_email (users ex_state))" by code_simp
  have b: "\<not> db_error ex_env 0" by code_simp
  have d: "distinct (map user_email (users ex_state))" by code_simp
  have c1: "body_email ?dup = Some (js ''a@b.com'') \<and> js ''a@b.com'' \<noteq> [] \<and>
            body_password ?dup = Some (js ''other'') \<and> js ''other'' \<noteq> []" by code_simp
  have c2: "body_email ?new = Some (js ''e@f.com'') \<and> js ''e@f.com'' \<noteq> [] \<and>
            body_password ?new = Some (js ''pw'') \<and> js ''pw'' \<noteq> []" by code_simp
  have c3: "body_email ex_request = None" by code_simp
  have m: "map user_email (users ex_state) = [js ''a@b.com'', js ''c@d.com'']" by code_simp
  have n: "map user_email (users (snd (signup ex_env ?new ex_state))) =
             [js ''a@b.com'', js ''c@d.com'', js ''e@f.com'']"
    using signup_outcomes [where req = ?new and email = "js ''e@f.com''" and password = "js ''pw''"
        and env = ex_env and s = ex_state] c2 b o m
    by simp
  show ?thesis
    using signup_outcomes [where req = ?dup and email = "js ''a@b.com''"
        and password = "js ''other''" and env = ex_env and s = ex_state]
      signup_outcomes [where req = ex_request and env = ex_env and s = ex_state]
      signup_outcomes [where req = ?new and email = "js ''e@f.com''" and password = "js ''pw''"
        and env = ex_env and s = ex_state]
      i o b d c1 c2 c3 n
    by blast
qed

subsection \<open>The cleaning step on fenced and unfenced answers\<close>















subsection \<open>Uploads that reach the insert\<close>

text \<open>The answer and the new row of an upload that reaches the insert.\<close>

lemma upload_stores:
  assumes "authenticateToken env req = Inr user"
    and "file_image req = Some (originalname, content)"
    and "generateContent env content = Some raw"
    and "\<not> db_error env 0"
  shows "fst (upload env req s) =
           Response 200 (Json (JObject
             [(js ''message'', JString (js ''Uploaded & analyzed'')),
              (js ''url'', JString (js ''/cars/'' @ String_nat (payload_id user) @ js ''/''
                                      @ storage_filename env originalname)),
              (js ''carInfo'', JString (carInfoJson_of env raw))]))"
    and "cars (snd (upload env req s)) =
           cars s @ [\<lparr>car_id = cars_auto_increment s,
                      car_filename = storage_filename env originalname,
                      car_url = js ''/cars/'' @ String_nat (payload_id user) @ js ''/''
                                  @ storage_filename env originalname,
                      car_user_id = payload_id user,
                      car_info = carInfoJson_of env raw,
                      car_uploaded_at = CURRENT_TIMESTAMP env\<rparr>]"
    and "files (snd (upload env req s)) =
           (files s)(storage_destination user @ [storage_filename env originalname] \<mapsto> content)"
proof -
  let ?m = "multer_single env user req s"
  let ?p = "storage_destination user @ [storage_filename env originalname]"
  let ?url = "js ''/cars/'' @ String_nat (payload_id user) @ js ''/'' @ storage_filename env originalname"
  have p: "fst ?m = Some ?p"
    and f: "files (snd ?m) = (files s)(?p \<mapsto> content)"
    and c: "cars (snd ?m) = cars s"
    and i: "cars_auto_increment (snd ?m) = cars_auto_increment s"
    using multer_single_file [OF assms(2)] by blast+
  have u: "upload env req s =
        (Response 200 (Json (JObject
             [(js ''message'', JString (js ''Uploaded & analyzed'')),
              (js ''url'', JString ?url),
              (js ''carInfo'', JString (carInfoJson_of env raw))])),
         insert_car env (storage_filename env originalname) ?url (payload_id user)
           (carInfoJson_of env raw) (snd ?m))"
    using assms(3,4) p f
    by (simp add: upload_authenticated [OF assms(1)] upload_handler_def path_basename_snoc Let_def)
  show "fst (upload env req s) =
           Response 200 (Json (JObject
             [(js ''message'', JString (js ''Uploaded & analyzed'')),
              (js ''url'', JString ?url),
              (js ''carInfo'', JString (carInfoJson_of env raw))]))"
    by (simp add: u)
  show "cars (snd (upload env req s)) =
           cars s @ [\<lparr>car_id = cars_auto_increment s,
                      car_filename = storage_filename env originalname,
                      car_url = ?url,
                      car_user_id = payload_id user,
                      car_info = carInfoJson_of env raw,
                      car_uploaded_at = CURRENT_TIMESTAMP env\<rparr>]"
    by (simp add: u insert_car_def c i)
  show "files (snd (upload env req s)) = (files s)(?p \<mapsto> content)"
    by (simp add: u insert_car_def f)
qed

lemma carInfoJson_of_fallback:
  "JSON_parse env (trim (replace_fence raw)) = None \<Longrightarrow>
   carInfoJson_of env raw = JSON_stringify env (JObject [(js ''description'', JString raw)])"
  by (simp add: carInfoJson_of_def)


lemma carInfoJson_of_stringify: "\<exists>v. carInfoJson_of env raw = JSON_stringify env v"
  by (auto simp: carInfoJson_of_def split: option.splits)

lemma upload_200:
  assumes "upload env req s = (Response 200 body, s')"
  shows "\<exists>user originalname content raw.
           authenticateToken env req = Inr user \<and> file_image req = Some (originalname, content) \<and>
           generateContent env content = Some raw \<and> \<not> db_error env 0"
proof (cases "authenticateToken env req")
  case (Inl res)
  then have "res = Response 200 body" using assms by (simp add: upload_rejected)
  then show ?thesis using authenticateToken_Inl [OF Inl] by auto
next
  case (Inr user)
  show ?thesis
  proof (cases "file_image req")
    case None
    then show ?thesis
      using assms by (simp add: upload_authenticated [OF Inr] multer_single_no_file upload_handler_def)
  next
    case (Some f)
    obtain originalname content where f: "f = (originalname, content)" by (cases f)
    let ?m = "multer_single env user req s"
    let ?p = "storage_destination user @ [storage_filename env originalname]"
    have p: "fst ?m = Some ?p" and fl: "files (snd ?m) = (files s)(?p \<mapsto> content)"
      using multer_single_file [of req originalname content] Some f by blast+
    have "generateContent env content \<noteq> None \<and> \<not> db_error env 0"
      using assms p fl
      by (auto simp: upload_authenticated [OF Inr] upload_handler_def Let_def
               split: option.splits if_splits)
    then show ?thesis using Inr Some f by auto
  qed
qed

text \<open>The read of the file that multer has just written never fails: every upload is answered.\<close>

lemma upload_responds: "fst (upload env req s) \<noteq> Unhandled"
proof (cases "authenticateToken env req")
  case (Inl res)
  then show ?thesis using authenticateToken_Inl [OF Inl] by (auto simp: upload_rejected)
next
  case (Inr user)
  show ?thesis
  proof (cases "file_image req")
    case None
    then show ?thesis
      by (simp add: upload_authenticated [OF Inr] multer_single_no_file upload_handler_def)
  next
    case (Some f)
    obtain originalname content where f: "f = (originalname, content)" by (cases f)
    let ?m = "multer_single env user req s"
    let ?p = "storage_destination user @ [storage_filename env originalname]"
    have p: "fst ?m = Some ?p" and fl: "files (snd ?m) = (files s)(?p \<mapsto> content)"
      using multer_single_file [of req originalname content] Some f by blast+
    show ?thesis
      using p fl
      by (simp add: upload_authenticated [OF Inr] upload_handler_def Let_def split: option.splits)
  qed
qed

subsection \<open>C2: the answer of Gemini is not JSON\<close>

text \<open>
  C2: when the Gemini call returns a text and \<^verbatim>\<open>JSON.parse\<close> throws on the cleaned text, the
  upload answers 200 all the same: the file is on disk, and the car row that is inserted has
  as \<^verbatim>\<open>car_info\<close> the serialisation of \<^verbatim>\<open>{ description: <raw answer> }\<close>, which is also the
  \<^verbatim>\<open>carInfo\<close> of the response. (The insert is the only query of the request; when the
  database fails on it the answer is 500.)
\<close>

theorem upload_parse_failure_falls_back:
  assumes "authenticateToken env req = Inr user"
    and "file_image req = Some (originalname, content)"
    and "generateContent env content = Some raw"
    and "JSON_parse env (trim (replace_fence raw)) = None"
    and "\<not> db_error env 0"
  shows "fst (upload env req s) =
           Response 200 (Json (JObject
             [(js ''message'', JString (js ''Uploaded & analyzed'')),
              (js ''url'', JString (js ''/cars/'' @ String_nat (payload_id user) @ js ''/''
                                      @ storage_filename env originalname)),
              (js ''carInfo'',
               JString (JSON_stringify env (JObject [(js ''description'', JString raw)])))])) \<and>
         cars (snd (upload env req s)) =
           cars s @ [\<lparr>car_id = cars_auto_increment s,
                      car_filename = storage_filename env originalname,
                      car_url = js ''/cars/'' @ String_nat (payload_id user) @ js ''/''
                                  @ storage_filename env originalname,
                      car_user_id = payload_id user,
                      car_info = JSON_stringify env (JObject [(js ''description'', JString raw)]),
                      car_uploaded_at = CURRENT_TIMESTAMP env\<rparr>] \<and>
         files (snd (upload env req s))
           (storage_destination user @ [storage_filename env originalname]) = Some content"
  using upload_stores [OF assms(1,2,3,5), of s] carInfoJson_of_fallback [OF assms(4)]
  by simp

theorem upload_parse_failure_falls_back_witness:
  "authenticateToken ex_env_prose ex_upload = Inr \<lparr>payload_id = 1, payload_username = None\<rparr> \<and>
   file_image ex_upload = Some (js ''car.jpg'', [0xFF, 0xD8, 0x02]) \<and>
   generateContent ex_env_prose [0xFF, 0xD8, 0x02] = Some (js ''A red car'') \<and>
   JSON_parse ex_env_prose (trim (replace_fence (js ''A red car''))) = None \<and>
   \<not> db_error ex_env_prose 0 \<and>
   fst (upload ex_env_prose ex_upload ex_state) =
     Response 200 (Json (JObject
       [(js ''message'', JString (js ''Uploaded & analyzed'')),
        (js ''url'', JString (js ''/cars/1/1723-car.jpg'')),
        (js ''carInfo'', JString (js ''{\"description\":\"A red car\"}''))])) \<and>
   cars (snd (upload ex_env_prose ex_upload ex_state)) =
     [ex_car,
      \<lparr>car_id = 2, car_filename = js ''1723-car.jpg'', car_url = js ''/cars/1/1723-car.jpg'',
       car_user_id = 1, car_info = js ''{\"description\":\"A red car\"}'',
       car_uploaded_at = 50\<rparr>] \<and>
   files (snd (upload ex_env_prose ex_upload ex_state)) ex_upload_path = Some [0xFF, 0xD8, 0x02]"
proof -
  let ?user = "\<lparr>payload_id = 1, payload_username = None\<rparr>"
  have a: "authenticateToken ex_env_prose ex_upload = Inr ?user" by code_simp
  have f: "file_image ex_upload = Some (js ''car.jpg'', [0xFF, 0xD8, 0x02])" by code_simp
  have g: "generateContent ex_env_prose [0xFF, 0xD8, 0x02] = Some (js ''A red car'')"
    by code_simp
  have n: "JSON_parse ex_env_prose (trim (replace_fence (js ''A red car''))) = None"
    by code_simp
  have d: "\<not> db_error ex_env_prose 0" by code_simp
  have p: "storage_destination ?user @ [js ''1723-car.jpg''] = ex_upload_path"
    by code_simp
  have u: "js ''/cars/'' @ String_nat (payload_id ?user) @ js ''/'' @ js ''1723-car.jpg''
             = js ''/cars/1/1723-car.jpg''"
    by code_simp
  have n': "storage_filename ex_env_prose (js ''car.jpg'') = js ''1723-car.jpg''"
    by code_simp
  have j: "JSON_stringify ex_env_prose (JObject [(js ''description'', JString (js ''A red car''))])
             = js ''{\"description\":\"A red car\"}''"
    by code_simp
  have c: "cars ex_state @
             [\<lparr>car_id = cars_auto_increment ex_state, car_filename = js ''1723-car.jpg'',
               car_url = js ''/cars/1/1723-car.jpg'', car_user_id = payload_id ?user,
               car_info = js ''{\"description\":\"A red car\"}'',
               car_uploaded_at = CURRENT_TIMESTAMP ex_env_prose\<rparr>] =
           [ex_car,
            \<lparr>car_id = 2, car_filename = js ''1723-car.jpg'', car_url = js ''/cars/1/1723-car.jpg'',
             car_user_id = 1, car_info = js ''{\"description\":\"A red car\"}'',
             car_uploaded_at = 50\<rparr>]"
    by code_simp
  show ?thesis
    using upload_parse_failure_falls_back
        [OF a f g n d, of ex_state, unfolded n', unfolded p u j, unfolded c]
      a f g n d
    by blast
qed

subsection \<open>C3: the answer of Gemini is JSON, fenced or not\<close>



subsection \<open>C10: the \<^verbatim>\<open>carInfo\<close> of the response is a string\<close>

text \<open>
  C10: whenever \<^verbatim>\<open>POST /upload\<close> answers 200, the body is the object with the fields
  \<^verbatim>\<open>message\<close>, \<^verbatim>\<open>url\<close> and \<^verbatim>\<open>carInfo\<close>, and \<^verbatim>\<open>carInfo\<close> is a JSON string: the text
  that \<^verbatim>\<open>JSON.stringify\<close> returned, which is also the \<^verbatim>\<open>car_info\<close> of the one row the
  request inserted. It is not a nested object, so a client has to parse it to read a field.
\<close>

theorem upload_success_carInfo_is_string:
  assumes "upload env req s = (Response 200 body, s')"
  shows "\<exists>url row v.
           body = Json (JObject
             [(js ''message'', JString (js ''Uploaded & analyzed'')),
              (js ''url'', JString url),
              (js ''carInfo'', JString (car_info row))]) \<and>
           cars s' = cars s @ [row] \<and> car_info row = JSON_stringify env v"
proof -
  obtain user originalname content raw where
    a: "authenticateToken env req = Inr user" and f: "file_image req = Some (originalname, content)"
    and g: "generateContent env content = Some raw" and d: "\<not> db_error env 0"
    using upload_200 [OF assms] by blast
  obtain v where v: "carInfoJson_of env raw = JSON_stringify env v"
    using carInfoJson_of_stringify by blast
  have "fst (upload env req s) = Response 200 body" and "snd (upload env req s) = s'"
    using assms by simp_all
  then show ?thesis
    using upload_stores(1,2) [OF a f g d, of s] v by auto
qed


theorem upload_success_carInfo_is_string_witness:
  "fst (upload ex_env ex_upload ex_state) =
     Response 200 (Json (JObject
       [(js ''message'', JString (js ''Uploaded & analyzed'')),
        (js ''url'', JString (js ''/cars/1/1723-car.jpg'')),
        (js ''carInfo'', JString (js ''{\"make\":\"Toyota\",\"model\":\"Corolla\",\"year\":2020}''))])) \<and>
   car_info (last (cars (snd (upload ex_env ex_upload ex_state)))) =
     js ''{\"make\":\"Toyota\",\"model\":\"Corolla\",\"year\":2020}''"
proof -
  let ?body = "Json (JObject
       [(js ''message'', JString (js ''Uploaded & analyzed'')),
        (js ''url'', JString (js ''/cars/1/1723-car.jpg'')),
        (js ''carInfo'', JString (js ''{\"make\":\"Toyota\",\"model\":\"Corolla\",\"year\":2020}''))])"
  have r: "fst (upload ex_env ex_upload ex_state) = Response 200 ?body" by code_simp
  then have u: "upload ex_env ex_upload ex_state =
                  (Response 200 ?body, snd (upload ex_env ex_upload ex_state))"
    by (metis prod.collapse)
  obtain url row v where
    b: "?body = Json (JObject
             [(js ''message'', JString (js ''Uploaded & analyzed'')),
              (js ''url'', JString url),
              (js ''carInfo'', JString (car_info row))])"
    and c: "cars (snd (upload ex_env ex_upload ex_state)) = cars ex_state @ [row]"
    using upload_success_carInfo_is_string [OF u] by blast
  from b have "car_info row = js ''{\"make\":\"Toyota\",\"model\":\"Corolla\",\"year\":2020}''"
    by simp
  with c r show ?thesis by simp
qed

end
